theory Spec2Isabelle
  imports Complex_Main "HOL-Library.Sublist"
begin

section \<open>Strings\<close>

text \<open>
  Python strings are modelled as lists of code points below 256 (one \<^typ>\<open>char\<close> per
  code point), so \<^const>\<open>length\<close> is Python's \<^verbatim>\<open>len\<close>. The operator \<^verbatim>\<open>a in b\<close> on
  strings is \<^const>\<open>sublist\<close>, \<^verbatim>\<open>b.endswith(a)\<close> is \<^const>\<open>suffix\<close>.
\<close>

definition lower_char :: "char \<Rightarrow> char" where
  "lower_char c =
     (let n = (of_char c :: nat)
      in if (65 \<le> n \<and> n \<le> 90) \<or> (192 \<le> n \<and> n \<le> 222 \<and> n \<noteq> 215)
         then char_of (n + 32) else c)"

definition lower :: "string \<Rightarrow> string" where
  "lower s = map lower_char s"

definition isspace :: "char \<Rightarrow> bool" where
  "isspace c =
     (let n = (of_char c :: nat)
      in (9 \<le> n \<and> n \<le> 13) \<or> (28 \<le> n \<and> n \<le> 32) \<or> n = 133 \<or> n = 160)"

definition strip :: "string \<Rightarrow> string" where
  "strip s = rev (dropWhile isspace (rev (dropWhile isspace s)))"

section \<open>Host trust policy (einstein_primary_preserver.py)\<close>

definition PRIMARY_WHITELIST :: "string list" where
  "PRIMARY_WHITELIST =
     [''doi.org'',
      ''onlinelibrary.wiley.com'',
      ''ui.adsabs.harvard.edu'',
      ''adsabs.harvard.edu'',
      ''archive.org'',
      ''echo.mpiwg-berlin.mpg.de'',
      ''mpiwg-berlin.mpg.de'',
      ''digi.ub.uni-heidelberg.de'',
      ''heidicon.ub.uni-heidelberg.de'',
      ''retro.seals.ch'',
      ''e-periodica.ch'',
      ''e-rara.ch'',
      ''journals.aps.org'',
      ''projecteuclid.org'',
      ''jstor.org'',
      ''gallica.bnf.fr'',
      ''nobelprize.org'',
      ''nature.com'',
      ''scientificamerican.com'',
      ''link.springer.com'',
      ''springer.com'',
      ''gutenberg.org'']"

definition VENUE_KEYWORDS :: "string list" where
  "VENUE_KEYWORDS =
     [''Annalen der Physik'',
      ''Sitzungsberichte der Preu'' @ [CHR 0xDF] @ ''ischen Akademie'',
      ''Physikalische Zeitschrift'',
      ''Zeitschrift f'' @ [CHR 0xFC] @ ''r Physik'',
      ''Physical Review'',
      ''Reviews of Modern Physics'',
      ''Journal of the Franklin Institute'',
      ''Annals of Mathematics'',
      ''Canadian Journal of Mathematics'',
      ''Nature'',
      ''Science'',
      ''Comptes Rendus'']"

text \<open>
  \<^verbatim>\<open>urlparse(url).netloc\<close> of the Python standard library (\<^verbatim>\<open>urllib.parse\<close>), which is
  not part of the repository: leading control characters and spaces are stripped, tab and
  line breaks removed, a leading scheme is split off at the first colon, and after
  \<^verbatim>\<open>//\<close> the network location runs up to the first of \<^verbatim>\<open>/ ? #\<close>. It keeps user
  information and port. A network location with an unmatched square bracket raises
  \<^verbatim>\<open>ValueError\<close>, here \<^const>\<open>None\<close>.
\<close>

definition scheme_char :: "char \<Rightarrow> bool" where
  "scheme_char c =
     (let n = (of_char c :: nat)
      in (97 \<le> n \<and> n \<le> 122) \<or> (65 \<le> n \<and> n \<le> 90) \<or> (48 \<le> n \<and> n \<le> 57)
         \<or> c = CHR ''+'' \<or> c = CHR ''-'' \<or> c = CHR ''.'')"

definition ascii_alpha :: "char \<Rightarrow> bool" where
  "ascii_alpha c =
     (let n = (of_char c :: nat) in (97 \<le> n \<and> n \<le> 122) \<or> (65 \<le> n \<and> n \<le> 90))"

definition drop_scheme :: "string \<Rightarrow> string" where
  "drop_scheme url =
     (let pre = takeWhile (\<lambda>c. c \<noteq> CHR '':'') url
      in if length pre < length url \<and> pre \<noteq> [] \<and> ascii_alpha (hd pre) \<and> list_all scheme_char pre
         then drop (length pre + 1) url else url)"

definition urlparse_netloc :: "string \<Rightarrow> string option" where
  "urlparse_netloc url =
     (let u1 = dropWhile (\<lambda>c. (of_char c :: nat) \<le> 32) url;
          u2 = filter (\<lambda>c. c \<noteq> CHR 0x09 \<and> c \<noteq> CHR 0x0A \<and> c \<noteq> CHR 0x0D) u1;
          u3 = drop_scheme u2
      in if take 2 u3 = ''//''
         then (let netloc = takeWhile (\<lambda>c. c \<noteq> CHR ''/'' \<and> c \<noteq> CHR ''?'' \<and> c \<noteq> CHR ''#'') (drop 2 u3)
               in if (CHR ''['' \<in> set netloc) = (CHR '']'' \<in> set netloc)
                  then Some netloc else None)
         else Some [])"

text \<open>The test of line 110, on the lower-cased network location.\<close>

definition host_match :: "string list \<Rightarrow> string \<Rightarrow> bool" where
  "host_match hosts netloc = list_ex (\<lambda>host. suffix host netloc \<or> sublist host netloc) hosts"

definition is_primary_url :: "string \<Rightarrow> bool" where
  "is_primary_url url =
     (case urlparse_netloc url of
        None \<Rightarrow> False
      | Some netloc \<Rightarrow> host_match PRIMARY_WHITELIST (lower netloc))"

section \<open>Validator\<close>

record checks =
  has_einstein :: bool
  has_venue :: bool
  page_sane :: bool
  valid_primary :: bool
  text_len :: nat
  pages :: nat
  host :: string

definition failed_checks :: checks where
  "failed_checks =
     \<lparr>has_einstein = False, has_venue = False, page_sane = False, valid_primary = False,
      text_len = 0, pages = 0, host = []\<rparr>"

text \<open>
  \<^verbatim>\<open>validate_pdf\<close>: the file at \<^verbatim>\<open>path\<close> enters as what the two PDF libraries read from
  it, \<open>Some (pages, text)\<close> with the page count and the text of the first pages, or
  \<^const>\<open>None\<close> when either of them raises. \<^verbatim>\<open>source_url\<close> is an optional string; both
  \<^verbatim>\<open>None\<close> and the empty string are false in the test of line 202. Every exception
  inside the \<^verbatim>\<open>try\<close> block, the one of \<^verbatim>\<open>urlparse\<close> included, gives the dictionary of
  line 214.
\<close>

definition source_host :: "string option \<Rightarrow> string option" where
  "source_host source_url =
     (case source_url of
        None \<Rightarrow> Some []
      | Some u \<Rightarrow> if u = [] then Some [] else map_option lower (urlparse_netloc u))"

definition validate_pdf ::
  "(nat \<times> string) option \<Rightarrow> string option \<Rightarrow> bool \<Rightarrow> string list \<Rightarrow> bool \<Rightarrow> checks" where
  "validate_pdf pdf source_url accept_scan_only trusted_hosts book =
     (case pdf of
        None \<Rightarrow> failed_checks
      | Some (npages, text) \<Rightarrow>
          (let text_low = lower text;
               tlen = length text_low;
               c_einstein = sublist ''einstein'' text_low;
               c_venue = list_ex (\<lambda>v. sublist (lower v) text_low) VENUE_KEYWORDS;
               c_sane = ((1 \<le> npages \<and> npages \<le> 200) \<or> (book \<and> npages > 50));
               valid = (c_einstein \<and> c_sane)
           in case source_host source_url of
                None \<Rightarrow> failed_checks
              | Some h \<Rightarrow>
                  (let is_trusted = host_match trusted_hosts h;
                       valid' = (if accept_scan_only \<and> is_trusted
                                    \<and> tlen < 100 \<and> 2 \<le> npages \<and> npages \<le> 80
                                 then True else valid)
                   in \<lparr>has_einstein = c_einstein, has_venue = c_venue, page_sane = c_sane,
                       valid_primary = valid', text_len = tlen, pages = npages, host = h\<rparr>)))"

section \<open>The world outside the program\<close>

text \<open>
  A bibliographic record and a row of the discovery tool are Python dictionaries, here
  association lists from keys to the text \<^verbatim>\<open>str\<close> gives for the value; a key that is
  absent, or whose value is \<^verbatim>\<open>None\<close> in a row, has no entry.
\<close>

type_synonym pydict = "(string \<times> string) list"

record response =
  status_code :: nat
  content_type :: string
  final_url :: string

record uw_data =
  best_pdf :: string
  loc_pdfs :: "string list"

datatype event =
    EvDoiGet string
  | EvUnpaywall string
  | EvGet string
  | EvSleep real
  | EvWrite string
  | EvHash string
  | EvMove string string
  | EvBrowser string string
  | EvPdfkit string string
  | EvPrint string string

text \<open>
  Everything the program reads from outside is an oracle of the world, asked at a time: the
  number of events that happened before. \<^const>\<open>Inl\<close> and \<^const>\<open>None\<close> results of
  fallible calls stand for a raised exception (\<^const>\<open>Inl\<close> carries its text).
  \<^item> \<open>doi_get\<close>, \<open>unpaywall_get\<close>: the two \<^verbatim>\<open>client.get\<close> calls of the resolver, giving the
    status code with the final URL, or with the decoded JSON body reduced to the
    \<^verbatim>\<open>url_for_pdf\<close> texts that \<^verbatim>\<open>try_unpaywall\<close> reads (\<^const>\<open>None\<close>: decoding raises);
  \<^item> \<open>http_get\<close>: \<^verbatim>\<open>sess.get\<close> of line 340; \<open>save_body\<close>: lines 347 to 349;
  \<^item> \<open>read_pdf\<close>: what the PDF libraries read from a path; \<open>sha256_file\<close>, \<open>move_file\<close>;
  \<^item> \<open>browser_session\<close>: the Playwright session of \<^verbatim>\<open>browser_fetch_pdf\<close>, false when it
    raises; \<open>pdfkit_from_url\<close>, \<open>playwright_print\<close>: the two engines of \<^verbatim>\<open>html_to_pdf\<close>,
    giving whether a file of more than 500 bytes exists afterwards;
  \<^item> \<open>jitter\<close>: the draw \<^verbatim>\<open>random.uniform(0, 1.0)\<close>.
\<close>

record world =
  UNPAYWALL_EMAIL :: string
  ADS_TOKEN :: string
  doi_get :: "nat \<Rightarrow> string \<Rightarrow> (nat \<times> string) option"
  unpaywall_get :: "nat \<Rightarrow> string \<Rightarrow> string \<Rightarrow> (nat \<times> uw_data option) option"
  http_get :: "nat \<Rightarrow> string \<Rightarrow> string + response"
  save_body :: "nat \<Rightarrow> string \<Rightarrow> string option"
  read_pdf :: "nat \<Rightarrow> string \<Rightarrow> (nat \<times> string) option"
  sha256_file :: "nat \<Rightarrow> string \<Rightarrow> string + string"
  move_file :: "nat \<Rightarrow> string \<Rightarrow> string \<Rightarrow> string option"
  browser_session :: "nat \<Rightarrow> string \<Rightarrow> string \<Rightarrow> bool"
  pdfkit_from_url :: "nat \<Rightarrow> string \<Rightarrow> string \<Rightarrow> bool option"
  playwright_print :: "nat \<Rightarrow> string \<Rightarrow> string \<Rightarrow> bool option"
  jitter :: "nat \<Rightarrow> real"

text \<open>
  The command line and the detected engines. \<open>out_pdf_of\<close> is the output path of lines
  330 and 331 (slug of title and year under the output directory), \<open>quarantine_of\<close> the
  path of line 356; neither is analysed further.
\<close>

record config =
  retries :: int
  allow_licensed :: bool
  use_browser :: bool
  accept_scan_only :: bool
  trust_host :: "string list"
  HAVE_PDFKIT :: bool
  HAVE_PLAYWRIGHT :: bool
  out_pdf_of :: "string \<Rightarrow> string \<Rightarrow> string"
  quarantine_of :: "string \<Rightarrow> string"

text \<open>Lines 272 to 275; the order of the list is immaterial to \<^const>\<open>host_match\<close>.\<close>

definition trusted_hosts :: "config \<Rightarrow> string list" where
  "trusted_hosts c =
     trust_host c @
     [''adsabs.harvard.edu'', ''ui.adsabs.harvard.edu'', ''archive.org'',
      ''echo.mpiwg-berlin.mpg.de'', ''digi.ub.uni-heidelberg.de'']"

section \<open>Candidate resolver\<close>

definition resolve_doi :: "world \<Rightarrow> string \<Rightarrow> event list \<Rightarrow> string option \<times> event list" where
  "resolve_doi w doi tr =
     (if doi = [] then (None, tr)
      else (case doi_get w (length tr) (''https://doi.org/'' @ doi) of
              None \<Rightarrow> (None, tr @ [EvDoiGet doi])
            | Some (code, url) \<Rightarrow>
                (if code < 400 then Some url else None, tr @ [EvDoiGet doi])))"

definition try_unpaywall :: "world \<Rightarrow> string \<Rightarrow> event list \<Rightarrow> string option \<times> event list" where
  "try_unpaywall w doi tr =
     (let email = strip (UNPAYWALL_EMAIL w)
      in if email = [] \<or> doi = [] then (None, tr)
         else (case unpaywall_get w (length tr) (''https://api.unpaywall.org/v2/'' @ doi) email of
                 None \<Rightarrow> (None, tr @ [EvUnpaywall doi])
               | Some (code, body) \<Rightarrow>
                   (if code \<ge> 400 then None
                    else (case body of
                            None \<Rightarrow> None
                          | Some d \<Rightarrow>
                              (let pdf = best_pdf d
                               in if pdf \<noteq> [] \<and> is_primary_url pdf then Some pdf
                                  else List.find (\<lambda>p. p \<noteq> [] \<and> is_primary_url p) (loc_pdfs d))),
                    tr @ [EvUnpaywall doi])))"

definition try_ads_pdf :: "world \<Rightarrow> string \<Rightarrow> string option" where
  "try_ads_pdf w bibcode =
     (let token = strip (ADS_TOKEN w)
      in if token = [] \<or> bibcode = [] then None
         else Some (''https://ui.adsabs.harvard.edu/link_gateway/'' @ bibcode @ ''/PUB_PDF''))"

definition get_str :: "pydict \<Rightarrow> string \<Rightarrow> string" where
  "get_str r k = (case map_of r k of None \<Rightarrow> [] | Some v \<Rightarrow> v)"

text \<open>\<^verbatim>\<open>if u: candidates.append(u)\<close>\<close>

definition append_if :: "string list \<Rightarrow> string option \<Rightarrow> string list" where
  "append_if cands u = (case u of None \<Rightarrow> cands | Some s \<Rightarrow> if s = [] then cands else cands @ [s])"

definition resolve_candidates ::
  "world \<Rightarrow> pydict \<Rightarrow> event list \<Rightarrow> string \<times> string \<times> string list \<times> event list" where
  "resolve_candidates w rec tr =
     (let title = strip (get_str rec ''title'');
          year = strip (get_str rec ''year'');
          doi = strip (get_str rec ''doi'');
          bibcode = strip (get_str rec ''bibcode'');
          url_hint = strip (get_str rec ''url_hint'');
          (c1, tr1) =
             (if doi \<noteq> []
              then (case resolve_doi w doi tr of (u, tr') \<Rightarrow>
                      (case try_unpaywall w doi tr' of (u2, tr'') \<Rightarrow>
                         (append_if (append_if [] u) u2, tr'')))
              else ([], tr));
          c2 = (if bibcode \<noteq> [] then append_if c1 (try_ads_pdf w bibcode) else c1);
          c3 = (if url_hint \<noteq> [] then c2 @ [url_hint] else c2);
          c4 = filter (\<lambda>u. u \<noteq> [] \<and> is_primary_url u) c3;
          c5 = (if c4 = [] \<and> bibcode \<noteq> []
                then (let u = ''http://adsabs.harvard.edu/pdf/'' @ bibcode
                      in if is_primary_url u then c4 @ [u] else c4)
                else c4)
      in (title, year, c5, tr1))"

section \<open>Fetch loop of one record\<close>

record status =
  title :: string
  year :: string
  chosen_url :: "string option"
  saved_as :: "string option"
  sha256 :: "string option"
  validated :: bool
  st_note :: string
  st_has_einstein :: bool
  st_has_venue :: bool
  st_page_sane :: bool
  st_text_len :: nat
  st_pages :: nat
  st_host :: string
  st_valid_primary :: "bool option"

text \<open>
  The dictionary of lines 321 to 325. It has no key \<^verbatim>\<open>valid_primary\<close> until the checks
  of a validation are merged into it, hence the option.
\<close>

definition init_status :: "string \<Rightarrow> string \<Rightarrow> status" where
  "init_status t y =
     \<lparr>title = t, year = y, chosen_url = None, saved_as = None, sha256 = None,
      validated = False, st_note = [], st_has_einstein = False, st_has_venue = False,
      st_page_sane = False, st_text_len = 0, st_pages = 0, st_host = [],
      st_valid_primary = None\<rparr>"

text \<open>\<^verbatim>\<open>status.update({**checks})\<close>\<close>

definition update_checks :: "checks \<Rightarrow> status \<Rightarrow> status" where
  "update_checks ck st =
     st\<lparr>st_has_einstein := has_einstein ck, st_has_venue := has_venue ck,
        st_page_sane := page_sane ck, st_text_len := text_len ck, st_pages := pages ck,
        st_host := host ck, st_valid_primary := Some (valid_primary ck)\<rparr>"

definition guess_pdf :: "string \<Rightarrow> bool" where
  "guess_pdf url =
     (let p = lower url in suffix ''.pdf'' p \<or> sublist ''pdf'' p \<or> sublist ''format=pdf'' p)"

definition backoff_base :: "nat \<Rightarrow> nat" where
  "backoff_base attempt = min 60 (2 ^ attempt)"

definition backoff_sleep :: "world \<Rightarrow> nat \<Rightarrow> event list \<Rightarrow> event list" where
  "backoff_sleep w attempt tr = tr @ [EvSleep (real (backoff_base attempt) + jitter w (length tr))]"

definition RETRYABLE :: "nat list" where
  "RETRYABLE = [429, 403, 500, 502, 503, 504]"

definition licensed :: "string \<Rightarrow> bool" where
  "licensed url = (sublist ''jstor.org'' url \<or> sublist ''springer'' url)"

text \<open>
  How one pass through the body of the retry loop ends: \<^verbatim>\<open>continue\<close> (or the end of the
  body), \<^verbatim>\<open>break\<close>, or \<^verbatim>\<open>return status\<close>.
\<close>

datatype 'a flow = Continue 'a | Break 'a | Return 'a

type_synonym fstate = "status \<times> event list"

text \<open>The handler of lines 382 to 385.\<close>

definition on_exception :: "world \<Rightarrow> nat \<Rightarrow> string \<Rightarrow> fstate \<Rightarrow> fstate flow" where
  "on_exception w attempt e s =
     (case s of (st, tr) \<Rightarrow> Continue (st\<lparr>st_note := ''error:'' @ e\<rparr>, backoff_sleep w attempt tr))"

text \<open>Lines 352 and 353, the same as 368 and 369 and as 375 and 376.\<close>

definition save_hashed :: "world \<Rightarrow> string \<Rightarrow> checks \<Rightarrow> nat \<Rightarrow> fstate \<Rightarrow> fstate flow" where
  "save_hashed w out_pdf ck attempt s =
     (case s of (st, tr) \<Rightarrow>
        (case sha256_file w (length tr) out_pdf of
           Inl e \<Rightarrow> on_exception w attempt e (st, tr @ [EvHash out_pdf])
         | Inr h \<Rightarrow>
             Return (update_checks ck (st\<lparr>saved_as := Some out_pdf, sha256 := Some h\<rparr>),
                     tr @ [EvHash out_pdf])))"

definition html_to_pdf :: "world \<Rightarrow> config \<Rightarrow> string \<Rightarrow> string \<Rightarrow> event list \<Rightarrow> bool \<times> event list" where
  "html_to_pdf w c url out_pdf tr =
     (let second = (\<lambda>tr'.
            if HAVE_PLAYWRIGHT c
            then (case playwright_print w (length tr') url out_pdf of
                    Some b \<Rightarrow> (b, tr' @ [EvPrint url out_pdf])
                  | None \<Rightarrow> (False, tr' @ [EvPrint url out_pdf]))
            else (False, tr'))
      in if HAVE_PDFKIT c
         then (case pdfkit_from_url w (length tr) url out_pdf of
                 Some b \<Rightarrow> (b, tr @ [EvPdfkit url out_pdf])
               | None \<Rightarrow> second (tr @ [EvPdfkit url out_pdf]))
         else second tr)"

definition browser_fetch_pdf :: "world \<Rightarrow> config \<Rightarrow> string \<Rightarrow> string \<Rightarrow> event list \<Rightarrow> bool \<times> event list" where
  "browser_fetch_pdf w c url out_pdf tr =
     (if \<not> HAVE_PLAYWRIGHT c then (False, tr)
      else (browser_session w (length tr) url out_pdf, tr @ [EvBrowser url out_pdf]))"

text \<open>Lines 346 to 359: the response is taken for a PDF.\<close>

definition pdf_branch :: "world \<Rightarrow> config \<Rightarrow> string \<Rightarrow> string \<Rightarrow> nat \<Rightarrow> fstate \<Rightarrow> fstate flow" where
  "pdf_branch w c out_pdf final attempt s =
     (case s of (st, tr) \<Rightarrow>
        (case save_body w (length tr) out_pdf of
           Some e \<Rightarrow> on_exception w attempt e (st, tr @ [EvWrite out_pdf])
         | None \<Rightarrow>
             (let tr1 = tr @ [EvWrite out_pdf];
                  ck = validate_pdf (read_pdf w (length tr1) out_pdf) (Some final)
                         (accept_scan_only c) (trusted_hosts c) False
              in if valid_primary ck then save_hashed w out_pdf ck attempt (st, tr1)
                 else (let qpath = quarantine_of c out_pdf
                       in case move_file w (length tr1) out_pdf qpath of
                            Some e \<Rightarrow> on_exception w attempt e (st, tr1 @ [EvMove out_pdf qpath])
                          | None \<Rightarrow>
                              Return ((update_checks ck (st\<lparr>saved_as := Some qpath\<rparr>))
                                        \<lparr>st_note := ''quarantined_failed_validation''\<rparr>,
                                      tr1 @ [EvMove out_pdf qpath])))))"

text \<open>Lines 370 to 378: the Gutenberg case and the end of the HTML branch.\<close>

definition gutenberg_case :: "world \<Rightarrow> config \<Rightarrow> string \<Rightarrow> string \<Rightarrow> nat \<Rightarrow> fstate \<Rightarrow> fstate flow" where
  "gutenberg_case w c out_pdf final attempt s =
     (case s of (st, tr) \<Rightarrow>
        (if sublist ''gutenberg.org'' final
         then (case html_to_pdf w c final out_pdf tr of (ok, tr1) \<Rightarrow>
                 (if ok
                  then (let ck = validate_pdf (read_pdf w (length tr1) out_pdf) (Some final)
                                   (accept_scan_only c) (trusted_hosts c) True
                        in save_hashed w out_pdf ck attempt (st, tr1))
                  else Break (st\<lparr>st_note := ''html_no_primary_pdf''\<rparr>, tr1)))
         else Break (st\<lparr>st_note := ''html_no_primary_pdf''\<rparr>, tr)))"

text \<open>Lines 361 to 369: the response is HTML or text.\<close>

definition html_branch :: "world \<Rightarrow> config \<Rightarrow> string \<Rightarrow> string \<Rightarrow> nat \<Rightarrow> fstate \<Rightarrow> fstate flow" where
  "html_branch w c out_pdf final attempt s =
     (case s of (st, tr) \<Rightarrow>
        (if use_browser c \<and> HAVE_PLAYWRIGHT c
         then (case browser_fetch_pdf w c final out_pdf tr of (ok, tr1) \<Rightarrow>
                 (if ok
                  then (let ck = validate_pdf (read_pdf w (length tr1) out_pdf) (Some final)
                                   (accept_scan_only c) (trusted_hosts c) False
                        in if valid_primary ck then save_hashed w out_pdf ck attempt (st, tr1)
                           else gutenberg_case w c out_pdf final attempt (st, tr1))
                  else gutenberg_case w c out_pdf final attempt (st, tr1)))
         else gutenberg_case w c out_pdf final attempt (st, tr)))"

text \<open>One pass through the body of the loop of line 338.\<close>

definition attempt_once :: "world \<Rightarrow> config \<Rightarrow> string \<Rightarrow> string \<Rightarrow> nat \<Rightarrow> fstate \<Rightarrow> fstate flow" where
  "attempt_once w c out_pdf url attempt s =
     (case s of (st, tr) \<Rightarrow>
        (case http_get w (length tr) url of
           Inl e \<Rightarrow> on_exception w attempt e (st, tr @ [EvGet url])
         | Inr r \<Rightarrow>
             (let tr1 = tr @ [EvGet url];
                  ctype = lower (content_type r);
                  final = final_url r
              in if status_code r \<in> set RETRYABLE then Continue (st, backoff_sleep w attempt tr1)
                 else if sublist ''pdf'' ctype \<or> guess_pdf final
                      then pdf_branch w c out_pdf final attempt (st, tr1)
                 else if sublist ''html'' ctype \<or> sublist ''text/'' ctype \<or> ctype = []
                      then html_branch w c out_pdf final attempt (st, tr1)
                 else Break (st\<lparr>st_note := ''unsupported_ctype:'' @ ctype\<rparr>, tr1))))"

text \<open>
  The loop of line 338 over the attempt numbers; \<^const>\<open>Continue\<close> when it runs to its
  end.
\<close>

fun attempts :: "world \<Rightarrow> config \<Rightarrow> string \<Rightarrow> string \<Rightarrow> nat list \<Rightarrow> fstate \<Rightarrow> fstate flow" where
  "attempts w c out_pdf url [] s = Continue s"
| "attempts w c out_pdf url (a # as) s =
     (case attempt_once w c out_pdf url a s of
        Continue s' \<Rightarrow> attempts w c out_pdf url as s'
      | Break s' \<Rightarrow> Break s'
      | Return s' \<Rightarrow> Return s')"

text \<open>The loop of line 333 over the candidates, and the final \<^verbatim>\<open>return status\<close>.\<close>

fun fetch_urls :: "world \<Rightarrow> config \<Rightarrow> string \<Rightarrow> string list \<Rightarrow> fstate \<Rightarrow> fstate" where
  "fetch_urls w c out_pdf [] s = s"
| "fetch_urls w c out_pdf (url # urls) s =
     (if licensed url \<and> \<not> allow_licensed c then fetch_urls w c out_pdf urls s
      else (case attempts w c out_pdf url [0..<nat (retries c)]
                   (fst s\<lparr>chosen_url := Some url\<rparr>, snd s) of
              Return s' \<Rightarrow> s'
            | Break s' \<Rightarrow> fetch_urls w c out_pdf urls s'
            | Continue s' \<Rightarrow> fetch_urls w c out_pdf urls s'))"

definition fetch_one :: "world \<Rightarrow> config \<Rightarrow> pydict \<Rightarrow> fstate" where
  "fetch_one w c rec =
     (case resolve_candidates w rec [] of (t, y, candidates, tr) \<Rightarrow>
        (if candidates = [] then ((init_status t y)\<lparr>st_note := ''no_primary_candidate''\<rparr>, tr)
         else fetch_urls w c (out_pdf_of c t y) candidates (init_status t y, tr)))"

section \<open>Discovery tool (einstein_missing_from_ads.py)\<close>

definition bib_key :: "pydict \<Rightarrow> string" where
  "bib_key r = strip (get_str r ''bibcode'')"

definition doi_key :: "pydict \<Rightarrow> string" where
  "doi_key r = lower (strip (get_str r ''doi''))"

text \<open>The loop of \<^verbatim>\<open>dedupe_rows\<close> with its three variables.\<close>

fun dedupe_loop :: "pydict list \<Rightarrow> string set \<Rightarrow> string set \<Rightarrow> pydict list \<Rightarrow> pydict list" where
  "dedupe_loop [] seen_bib seen_doi out = out"
| "dedupe_loop (r # rows) seen_bib seen_doi out =
     (let b = bib_key r; d = doi_key r
      in if b \<noteq> [] \<and> b \<in> seen_bib then dedupe_loop rows seen_bib seen_doi out
         else if d \<noteq> [] \<and> d \<in> seen_doi then dedupe_loop rows seen_bib seen_doi out
         else dedupe_loop rows
                (if b \<noteq> [] then insert b seen_bib else seen_bib)
                (if d \<noteq> [] then insert d seen_doi else seen_doi)
                (out @ [r]))"

definition dedupe_rows :: "pydict list \<Rightarrow> pydict list" where
  "dedupe_rows rows = dedupe_loop rows {} {} []"

section \<open>Definitions used in the statements\<close>








text \<open>The keys of the rows kept so far, as the loop of \<^verbatim>\<open>dedupe_rows\<close> holds them.\<close>

definition bib_keys :: "pydict list \<Rightarrow> string set" where
  "bib_keys rows = set (filter (\<lambda>b. b \<noteq> []) (map bib_key rows))"

definition doi_keys :: "pydict list \<Rightarrow> string set" where
  "doi_keys rows = set (filter (\<lambda>d. d \<noteq> []) (map doi_key rows))"

definition dup :: "string set \<Rightarrow> string set \<Rightarrow> pydict \<Rightarrow> bool" where
  "dup sb sd r = ((bib_key r \<noteq> [] \<and> bib_key r \<in> sb) \<or> (doi_key r \<noteq> [] \<and> doi_key r \<in> sd))"

definition add_bib :: "string set \<Rightarrow> pydict \<Rightarrow> string set" where
  "add_bib sb r = (if bib_key r \<noteq> [] then insert (bib_key r) sb else sb)"

definition add_doi :: "string set \<Rightarrow> pydict \<Rightarrow> string set" where
  "add_doi sd r = (if doi_key r \<noteq> [] then insert (doi_key r) sd else sd)"

definition seen_before :: "pydict list \<Rightarrow> pydict \<Rightarrow> bool" where
  "seen_before kept r = (bib_key r \<in> bib_keys kept \<or> doi_key r \<in> doi_keys kept)"

text \<open>
  A sample world and command line for the concrete runs below. The index answers every
  request with a PDF that does not name the subject, Project Gutenberg answers with HTML
  that the renderer turns into a file, every other host answers 503, and the open-access
  lookup lists two locations at a whitelisted host.
\<close>

definition demo_world :: world where
  "demo_world =
     \<lparr>UNPAYWALL_EMAIL = ''ops@example.org'',
      ADS_TOKEN = ''token'',
      doi_get = (\<lambda>t u. None),
      unpaywall_get = (\<lambda>t u e.
         Some (200, Some \<lparr>best_pdf = ''https://archive.org/download/a.pdf'',
                          loc_pdfs = [''https://archive.org/download/a.pdf'',
                                      ''https://archive.org/download/b.pdf'']\<rparr>)),
      http_get = (\<lambda>t u.
         if u = ''https://www.gutenberg.org/ebooks/5001''
         then Inr \<lparr>status_code = 200, content_type = ''text/html; charset=utf-8'', final_url = u\<rparr>
         else if sublist ''ui.adsabs.harvard.edu'' u
         then Inr \<lparr>status_code = 200, content_type = ''application/pdf'', final_url = u\<rparr>
         else Inr \<lparr>status_code = 503, content_type = ''text/html'', final_url = u\<rparr>),
      save_body = (\<lambda>t p. None),
      read_pdf = (\<lambda>t p. Some (12, ''Please sign in to view this document'')),
      sha256_file = (\<lambda>t p. Inr ''9f86d081884c7d65''),
      move_file = (\<lambda>t p q. None),
      browser_session = (\<lambda>t u p. False),
      pdfkit_from_url = (\<lambda>t u p. Some True),
      playwright_print = (\<lambda>t u p. None),
      jitter = (\<lambda>t. 1 / 2)\<rparr>"

definition demo_config :: config where
  "demo_config =
     \<lparr>retries = 3, allow_licensed = False, use_browser = False, accept_scan_only = False,
      trust_host = [], HAVE_PDFKIT = True, HAVE_PLAYWRIGHT = False,
      out_pdf_of = (\<lambda>t y. ''out/'' @ y @ ''_'' @ t @ ''.pdf''),
      quarantine_of = (\<lambda>p. ''out/quarantine/'' @ drop 4 p)\<rparr>"

definition rec_gutenberg :: pydict where
  "rec_gutenberg =
     [(''title'', ''Relativity''), (''year'', ''1920''),
      (''url_hint'', ''https://www.gutenberg.org/ebooks/5001'')]"



definition rec_jstor :: pydict where
  "rec_jstor =
     [(''title'', ''Geometry''), (''year'', ''1921''),
      (''url_hint'', ''https://www.jstor.org/stable/1'')]"


definition row_a :: pydict where
  "row_a = [(''title'', ''first''), (''bibcode'', ''A''), (''doi'', ''10.1/x'')]"

definition row_b :: pydict where
  "row_b = [(''title'', ''second''), (''bibcode'', ''A''), (''doi'', ''10.1/y'')]"

definition row_c :: pydict where
  "row_c = [(''title'', ''third''), (''bibcode'', ''B''), (''doi'', '' 10.1/Y '')]"

section \<open>Properties of the strings and of the host test\<close>








section \<open>Host trust policy: the whitelist test\<close>




section \<open>Validator: acceptance\<close>











section \<open>Fetch loop: licensed candidates\<close>

lemma fetch_urls_all_licensed:
  "\<not> allow_licensed c \<Longrightarrow> \<forall>u \<in> set cands. licensed u \<Longrightarrow> fetch_urls w c out cands s = s"
  by (induction cands) simp_all

text \<open>
  Claim C9. With the allow-licensed switch off, a candidate whose URL contains
  \<^verbatim>\<open>jstor.org\<close> or \<^verbatim>\<open>springer\<close> is passed over: the loop goes on with the state and the
  trace of events it had, so no request is made and \<^verbatim>\<open>chosen_url\<close> is not set. A record all
  of whose candidates are such URLs ends with the initial ledger entry: not accepted,
  \<^verbatim>\<open>chosen_url\<close> and \<^verbatim>\<open>saved_as\<close> null, and the empty note rather than
  \<^verbatim>\<open>no_primary_candidate\<close>.
\<close>

theorem licensed_candidates_skipped:
  assumes "\<not> allow_licensed c" and "\<forall>u \<in> set cands. licensed u"
  shows "fetch_urls w c out cands s = s
    \<and> (licensed url \<longrightarrow> fetch_urls w c out (url # rest) s = fetch_urls w c out rest s)
    \<and> (cands \<noteq> [] \<and> resolve_candidates w rec [] = (t, y, cands, tr) \<longrightarrow>
         fetch_one w c rec = (init_status t y, tr)
         \<and> chosen_url (init_status t y) = None \<and> saved_as (init_status t y) = None
         \<and> st_note (init_status t y) = [] \<and> \<not> validated (init_status t y)
         \<and> st_valid_primary (init_status t y) = None)"
proof -
  have a: "fetch_urls w c out cands s = s" for out s
    using assms by (rule fetch_urls_all_licensed)
  have b: "licensed url \<longrightarrow> fetch_urls w c out (url # rest) s = fetch_urls w c out rest s"
    using assms(1) by simp
  have d: "cands \<noteq> [] \<and> resolve_candidates w rec [] = (t, y, cands, tr) \<longrightarrow>
         fetch_one w c rec = (init_status t y, tr)"
    by (simp add: fetch_one_def a)
  have e: "chosen_url (init_status t y) = None \<and> saved_as (init_status t y) = None
         \<and> st_note (init_status t y) = [] \<and> \<not> validated (init_status t y)
         \<and> st_valid_primary (init_status t y) = None"
    by (simp add: init_status_def)
  from a b d e show ?thesis by simp
qed

text \<open>The theorem at a record whose only candidate is a JSTOR page.\<close>

theorem licensed_candidates_skipped_witness:
  "\<not> allow_licensed demo_config
   \<and> licensed ''https://www.jstor.org/stable/1''
   \<and> [''https://www.jstor.org/stable/1''] \<noteq> []
   \<and> resolve_candidates demo_world rec_jstor [] =
       (''Geometry'', ''1921'', [''https://www.jstor.org/stable/1''], [])
   \<and> fetch_urls demo_world demo_config ''out/x.pdf'' [''https://www.jstor.org/stable/1'']
        (init_status ''Geometry'' ''1921'', []) = (init_status ''Geometry'' ''1921'', [])
   \<and> fetch_one demo_world demo_config rec_jstor = (init_status ''Geometry'' ''1921'', [])
   \<and> st_note (init_status ''Geometry'' ''1921'') = []"
proof -
  let ?u = "''https://www.jstor.org/stable/1''"
  have h1: "\<not> allow_licensed demo_config" by code_simp
  have h2: "\<forall>u \<in> set [?u]. licensed u" by code_simp
  have h3: "licensed ?u" by code_simp
  have h4: "[?u] \<noteq> []" by simp
  have h5: "resolve_candidates demo_world rec_jstor [] = (''Geometry'', ''1921'', [?u], [])"
    by code_simp
  note T = licensed_candidates_skipped [OF h1 h2, of demo_world "''out/x.pdf''"
      "(init_status ''Geometry'' ''1921'', [])" ?u "[]" rec_jstor "''Geometry''" "''1921''" "[]"]
  have q1: "fetch_urls demo_world demo_config ''out/x.pdf'' [?u]
        (init_status ''Geometry'' ''1921'', []) = (init_status ''Geometry'' ''1921'', [])"
    by (rule conjunct1 [OF T])
  have q2: "fetch_one demo_world demo_config rec_jstor = (init_status ''Geometry'' ''1921'', [])
         \<and> chosen_url (init_status ''Geometry'' ''1921'') = None
         \<and> saved_as (init_status ''Geometry'' ''1921'') = None
         \<and> st_note (init_status ''Geometry'' ''1921'') = []
         \<and> \<not> validated (init_status ''Geometry'' ''1921'')
         \<and> st_valid_primary (init_status ''Geometry'' ''1921'') = None"
    by (rule mp [OF conjunct2 [OF conjunct2 [OF T]] conjI [OF h4 h5]])
  from q2 have q3: "fetch_one demo_world demo_config rec_jstor = (init_status ''Geometry'' ''1921'', [])"
    by (rule conjunct1)
  from q2 have q4: "st_note (init_status ''Geometry'' ''1921'') = []" by simp
  show ?thesis by (intro conjI h1 h3 h4 h5 q1 q3 q4)
qed

section \<open>Records without a candidate\<close>






section \<open>Fetch loop: retryable answers\<close>








section \<open>Fetch loop: quarantine\<close>






section \<open>Fetch loop: content hash\<close>

text \<open>
  Claim C2. The claim has a content hash in the ledger entry only when the entry is
  accepted. On the Gutenberg path (lines 371 to 376) the hash is computed without a test of
  \<^verbatim>\<open>valid_primary\<close>, which the two other paths make (lines 351 and 367): for a record whose
  hint is a Project Gutenberg page rendered to a file that does not name the subject, the
  entry has a content hash and \<^verbatim>\<open>valid_primary\<close> false.
\<close>

theorem gutenberg_hash_without_acceptance:
  "resolve_candidates demo_world rec_gutenberg [] =
     (''Relativity'', ''1920'', [''https://www.gutenberg.org/ebooks/5001''], [])
   \<and> sha256 (fst (fetch_one demo_world demo_config rec_gutenberg)) = Some ''9f86d081884c7d65''
   \<and> st_valid_primary (fst (fetch_one demo_world demo_config rec_gutenberg)) = Some False
   \<and> saved_as (fst (fetch_one demo_world demo_config rec_gutenberg))
       = Some ''out/1920_Relativity.pdf''"
  by code_simp

section \<open>Resolver: open-access lookup\<close>





section \<open>Discovery tool: removing duplicate rows\<close>

lemma dedupe_loop_step:
  "dedupe_loop (r # rows) sb sd out =
     (if dup sb sd r then dedupe_loop rows sb sd out
      else dedupe_loop rows (add_bib sb r) (add_doi sd r) (out @ [r]))"
  by (simp add: Let_def dup_def add_bib_def add_doi_def)

lemma dedupe_loop_out: "dedupe_loop rows sb sd out = out @ dedupe_loop rows sb sd []"
proof (induction rows arbitrary: sb sd out)
  case Nil
  show ?case by simp
next
  case (Cons r rows)
  have a: "dedupe_loop rows (add_bib sb r) (add_doi sd r) (out @ [r])
             = (out @ [r]) @ dedupe_loop rows (add_bib sb r) (add_doi sd r) []"
    by (rule Cons.IH)
  have b: "dedupe_loop rows (add_bib sb r) (add_doi sd r) [r]
             = [r] @ dedupe_loop rows (add_bib sb r) (add_doi sd r) []"
    by (rule Cons.IH)
  have c: "dedupe_loop rows sb sd out = out @ dedupe_loop rows sb sd []"
    by (rule Cons.IH)
  show ?case
    by (simp add: dedupe_loop_step a b c del: dedupe_loop.simps)
qed

lemma dedupe_loop_Cons:
  "dedupe_loop (r # rows) sb sd [] =
     (if dup sb sd r then dedupe_loop rows sb sd []
      else r # dedupe_loop rows (add_bib sb r) (add_doi sd r) [])"
proof -
  have "dedupe_loop rows (add_bib sb r) (add_doi sd r) ([] @ [r])
          = ([] @ [r]) @ dedupe_loop rows (add_bib sb r) (add_doi sd r) []"
    by (rule dedupe_loop_out)
  then show ?thesis by (simp only: dedupe_loop_step append_Nil append_Cons)
qed

lemma dedupe_loop_idem:
  "dedupe_loop (dedupe_loop rows sb sd []) sb sd [] = dedupe_loop rows sb sd []"
proof (induction rows arbitrary: sb sd)
  case Nil
  show ?case by simp
next
  case (Cons r rows)
  show ?case
  proof (cases "dup sb sd r")
    case True
    then show ?thesis by (simp only: dedupe_loop_Cons if_True Cons.IH)
  next
    case False
    then show ?thesis by (simp only: dedupe_loop_Cons if_False Cons.IH)
  qed
qed

lemma dedupe_loop_subseq: "subseq (dedupe_loop rows sb sd []) rows"
proof (induction rows arbitrary: sb sd)
  case Nil
  show ?case by simp
next
  case (Cons r rows)
  show ?case
  proof (cases "dup sb sd r")
    case True
    then show ?thesis using Cons.IH [of sb sd] by (simp only: dedupe_loop_Cons if_True list_emb_Cons)
  next
    case False
    then show ?thesis using Cons.IH [of "add_bib sb r" "add_doi sd r"]
      by (simp add: dedupe_loop_Cons del: dedupe_loop.simps)
  qed
qed

lemma dedupe_loop_not_dup:
  "x \<in> set (dedupe_loop rows sb sd []) \<Longrightarrow> \<not> dup sb sd x"
proof (induction rows arbitrary: sb sd)
  case Nil
  then show ?case by simp
next
  case (Cons r rows)
  show ?case
  proof (cases "dup sb sd r")
    case True
    with Cons.prems have "x \<in> set (dedupe_loop rows sb sd [])"
      by (simp only: dedupe_loop_Cons if_True)
    then show ?thesis by (rule Cons.IH)
  next
    case False
    with Cons.prems have "x = r \<or> x \<in> set (dedupe_loop rows (add_bib sb r) (add_doi sd r) [])"
      by (simp only: dedupe_loop_Cons if_False set_simps insert_iff)
    then show ?thesis
    proof
      assume "x = r" with False show ?thesis by simp
    next
      assume "x \<in> set (dedupe_loop rows (add_bib sb r) (add_doi sd r) [])"
      then have "\<not> dup (add_bib sb r) (add_doi sd r) x" by (rule Cons.IH)
      then show ?thesis by (auto simp: dup_def add_bib_def add_doi_def split: if_splits)
    qed
  qed
qed

lemma dedupe_loop_not_dup_added:
  assumes "x \<in> set (dedupe_loop rows (add_bib sb r) (add_doi sd r) [])"
  shows "(bib_key x \<noteq> [] \<longrightarrow> bib_key x \<noteq> bib_key r) \<and> (doi_key x \<noteq> [] \<longrightarrow> doi_key x \<noteq> doi_key r)"
proof -
  from assms have "\<not> dup (add_bib sb r) (add_doi sd r) x" by (rule dedupe_loop_not_dup)
  then show ?thesis by (auto simp: dup_def add_bib_def add_doi_def split: if_splits)
qed

lemma dedupe_loop_distinct_bib:
  "distinct (filter (\<lambda>b. b \<noteq> []) (map bib_key (dedupe_loop rows sb sd [])))"
proof (induction rows arbitrary: sb sd)
  case Nil
  show ?case by simp
next
  case (Cons r rows)
  show ?case
  proof (cases "dup sb sd r")
    case True
    then show ?thesis using Cons.IH [of sb sd] by (simp only: dedupe_loop_Cons if_True)
  next
    case False
    have "bib_key r \<notin> set (filter (\<lambda>b. b \<noteq> []) (map bib_key (dedupe_loop rows (add_bib sb r) (add_doi sd r) [])))"
    proof
      assume "bib_key r \<in> set (filter (\<lambda>b. b \<noteq> []) (map bib_key (dedupe_loop rows (add_bib sb r) (add_doi sd r) [])))"
      then obtain x where "x \<in> set (dedupe_loop rows (add_bib sb r) (add_doi sd r) [])"
        and "bib_key x = bib_key r" and "bib_key x \<noteq> []" by auto
      with dedupe_loop_not_dup_added [of x rows sb r sd] show False by simp
    qed
    with False show ?thesis using Cons.IH [of "add_bib sb r" "add_doi sd r"]
      by (auto simp: dedupe_loop_Cons simp del: dedupe_loop.simps)
  qed
qed

lemma dedupe_loop_distinct_doi:
  "distinct (filter (\<lambda>d. d \<noteq> []) (map doi_key (dedupe_loop rows sb sd [])))"
proof (induction rows arbitrary: sb sd)
  case Nil
  show ?case by simp
next
  case (Cons r rows)
  show ?case
  proof (cases "dup sb sd r")
    case True
    then show ?thesis using Cons.IH [of sb sd] by (simp only: dedupe_loop_Cons if_True)
  next
    case False
    have "doi_key r \<notin> set (filter (\<lambda>d. d \<noteq> []) (map doi_key (dedupe_loop rows (add_bib sb r) (add_doi sd r) [])))"
    proof
      assume "doi_key r \<in> set (filter (\<lambda>d. d \<noteq> []) (map doi_key (dedupe_loop rows (add_bib sb r) (add_doi sd r) [])))"
      then obtain x where "x \<in> set (dedupe_loop rows (add_bib sb r) (add_doi sd r) [])"
        and "doi_key x = doi_key r" and "doi_key x \<noteq> []" by auto
      with dedupe_loop_not_dup_added [of x rows sb r sd] show False by simp
    qed
    with False show ?thesis using Cons.IH [of "add_bib sb r" "add_doi sd r"]
      by (auto simp: dedupe_loop_Cons simp del: dedupe_loop.simps)
  qed
qed

lemma dedupe_loop_empty_keys:
  "filter (\<lambda>r. bib_key r = [] \<and> doi_key r = []) (dedupe_loop rows sb sd [])
     = filter (\<lambda>r. bib_key r = [] \<and> doi_key r = []) rows"
proof (induction rows arbitrary: sb sd)
  case Nil
  show ?case by simp
next
  case (Cons r rows)
  show ?case
  proof (cases "dup sb sd r")
    case True
    then have "\<not> (bib_key r = [] \<and> doi_key r = [])" by (auto simp: dup_def)
    with True show ?thesis using Cons.IH [of sb sd]
      by (simp add: dedupe_loop_Cons del: dedupe_loop.simps)
  next
    case False
    then show ?thesis using Cons.IH [of "add_bib sb r" "add_doi sd r"]
      by (simp add: dedupe_loop_Cons del: dedupe_loop.simps)
  qed
qed

lemma dedupe_loop_snoc:
  "dedupe_loop (rows @ [r]) sb sd [] =
     dedupe_loop rows sb sd [] @
       (if dup (sb \<union> bib_keys (dedupe_loop rows sb sd [])) (sd \<union> doi_keys (dedupe_loop rows sb sd [])) r
        then [] else [r])"
proof (induction rows arbitrary: sb sd)
  case Nil
  show ?case by (simp add: dedupe_loop_Cons bib_keys_def doi_keys_def del: dedupe_loop.simps(2))
next
  case (Cons a rows)
  show ?case
  proof (cases "dup sb sd a")
    case True
    then show ?thesis using Cons.IH [of sb sd]
      by (simp add: dedupe_loop_Cons del: dedupe_loop.simps)
  next
    case False
    let ?D = "dedupe_loop rows (add_bib sb a) (add_doi sd a) []"
    have k1: "add_bib sb a \<union> bib_keys ?D = sb \<union> bib_keys (a # ?D)"
      by (auto simp: add_bib_def bib_keys_def)
    have k2: "add_doi sd a \<union> doi_keys ?D = sd \<union> doi_keys (a # ?D)"
      by (auto simp: add_doi_def doi_keys_def)
    from False show ?thesis using Cons.IH [of "add_bib sb a" "add_doi sd a"]
      by (simp add: dedupe_loop_Cons k1 k2 del: dedupe_loop.simps)
  qed
qed


lemma seen_before_dup: "dup ({} \<union> bib_keys kept) ({} \<union> doi_keys kept) r = seen_before kept r"
  by (auto simp: dup_def seen_before_def bib_keys_def doi_keys_def)

text \<open>
  Claim C10, amended. \<^verbatim>\<open>dedupe_rows\<close> returns a subsequence of its input, so the kept rows
  stay in input order. A row is kept exactly when neither its non-empty bibcode nor its
  non-empty DOI (trimmed and lower-cased) is a key of a row kept before it; hence the kept
  rows have pairwise distinct non-empty bibcodes and pairwise distinct non-empty DOIs, and
  a row whose bibcode and DOI are both empty is always kept. The first row of a key is
  dropped when its other key was seen before, and a later row of that key can then be
  kept. The function is idempotent.
\<close>

theorem dedupe_rows_keeps_unseen:
  "subseq (dedupe_rows rows) rows
   \<and> dedupe_rows (rows @ [r]) =
       dedupe_rows rows @ (if seen_before (dedupe_rows rows) r then [] else [r])
   \<and> distinct (filter (\<lambda>b. b \<noteq> []) (map bib_key (dedupe_rows rows)))
   \<and> distinct (filter (\<lambda>d. d \<noteq> []) (map doi_key (dedupe_rows rows)))
   \<and> filter (\<lambda>r. bib_key r = [] \<and> doi_key r = []) (dedupe_rows rows)
       = filter (\<lambda>r. bib_key r = [] \<and> doi_key r = []) rows
   \<and> dedupe_rows (dedupe_rows rows) = dedupe_rows rows"
proof -
  have a: "subseq (dedupe_rows rows) rows"
    unfolding dedupe_rows_def by (rule dedupe_loop_subseq)
  have b: "dedupe_rows (rows @ [r]) =
       dedupe_rows rows @ (if seen_before (dedupe_rows rows) r then [] else [r])"
    unfolding dedupe_rows_def by (simp only: dedupe_loop_snoc seen_before_dup)
  have c: "distinct (filter (\<lambda>b. b \<noteq> []) (map bib_key (dedupe_rows rows)))"
    unfolding dedupe_rows_def by (rule dedupe_loop_distinct_bib)
  have d: "distinct (filter (\<lambda>d. d \<noteq> []) (map doi_key (dedupe_rows rows)))"
    unfolding dedupe_rows_def by (rule dedupe_loop_distinct_doi)
  have e: "filter (\<lambda>r. bib_key r = [] \<and> doi_key r = []) (dedupe_rows rows)
       = filter (\<lambda>r. bib_key r = [] \<and> doi_key r = []) rows"
    unfolding dedupe_rows_def by (rule dedupe_loop_empty_keys)
  have f: "dedupe_rows (dedupe_rows rows) = dedupe_rows rows"
    unfolding dedupe_rows_def by (rule dedupe_loop_idem)
  show ?thesis by (intro conjI a b c d e f)
qed

text \<open>The theorem at three rows, the second added last.\<close>

theorem dedupe_rows_keeps_unseen_witness:
  "subseq (dedupe_rows [row_a, row_c]) [row_a, row_c]
   \<and> dedupe_rows ([row_a, row_c] @ [row_b]) =
       dedupe_rows [row_a, row_c] @ (if seen_before (dedupe_rows [row_a, row_c]) row_b then [] else [row_b])
   \<and> distinct (filter (\<lambda>b. b \<noteq> []) (map bib_key (dedupe_rows [row_a, row_c])))
   \<and> distinct (filter (\<lambda>d. d \<noteq> []) (map doi_key (dedupe_rows [row_a, row_c])))
   \<and> filter (\<lambda>r. bib_key r = [] \<and> doi_key r = []) (dedupe_rows [row_a, row_c])
       = filter (\<lambda>r. bib_key r = [] \<and> doi_key r = []) [row_a, row_c]
   \<and> dedupe_rows (dedupe_rows [row_a, row_c]) = dedupe_rows [row_a, row_c]"
  by (rule dedupe_rows_keeps_unseen)

text \<open>
  The claim as first stated keeps exactly the first row of each distinct non-empty DOI. Of
  three rows with bibcodes A, A, B and DOIs x, y, y the second is the first row of DOI y;
  it is dropped for its bibcode, and the third row, of the same DOI, is kept.
\<close>

theorem dedupe_rows_first_doi_counterexample:
  "dedupe_rows [row_a, row_b, row_c] = [row_a, row_c]
   \<and> doi_key row_a \<noteq> ''10.1/y'' \<and> doi_key row_b = ''10.1/y'' \<and> doi_key row_c = ''10.1/y''
   \<and> row_b \<noteq> row_c"
  by code_simp

end
